theory Spec2Isabelle
  imports Main
begin

section \<open>JavaScript primitives used by the components\<close>

text \<open>
  \<^verbatim>\<open>String.prototype.split(separator)\<close> with a string separator and no limit. With a
  non-empty separator the string is cut at every occurrence of the separator, found from
  left to right without overlap; \<open>cur\<close> is the token collected so far. The empty string
  gives the one-element array holding the empty string.
\<close>

function splitNonEmpty :: "string \<Rightarrow> string \<Rightarrow> string \<Rightarrow> string list" where
  "splitNonEmpty sep cur [] = [cur]"
| "splitNonEmpty sep cur (c # cs) =
     (if sep \<noteq> [] \<and> take (length sep) (c # cs) = sep
      then cur # splitNonEmpty sep [] (drop (length sep) (c # cs))
      else splitNonEmpty sep (cur @ [c]) cs)"
  by pat_completeness auto
termination
  by (relation "measure (\<lambda>(sep, cur, s). length s)") auto

text \<open>
  With the empty separator, \<^verbatim>\<open>split\<close> returns the characters of the string one by one
  (and the empty array for the empty string).
\<close>

definition str_split :: "string \<Rightarrow> string \<Rightarrow> string list" where
  "str_split s sep = (if sep = [] then map (\<lambda>c. [c]) s else splitNonEmpty sep [] s)"

text \<open>\<^verbatim>\<open>Array.prototype.join(separator)\<close> on an array of strings.\<close>

fun arr_join :: "string list \<Rightarrow> string \<Rightarrow> string" where
  "arr_join [] sep = []"
| "arr_join [x] sep = x"
| "arr_join (x # y # ys) sep = x @ sep @ arr_join (y # ys) sep"

text \<open>
  \<^verbatim>\<open>Array.prototype.pop()\<close>: the removed last element (\<^verbatim>\<open>undefined\<close>, here \<open>None\<close>, on
  the empty array) and the array that is left.
\<close>

definition arr_pop :: "'a list \<Rightarrow> 'a option \<times> 'a list" where
  "arr_pop xs = (if xs = [] then (None, []) else (Some (last xs), butlast xs))"

text \<open>
  \<^verbatim>\<open>xs[i]\<close> on an array: \<^verbatim>\<open>undefined\<close> (\<open>None\<close>) when \<open>i\<close> is not an index of \<open>xs\<close>;
  JavaScript raises nothing there.
\<close>

definition arr_index :: "'a list \<Rightarrow> int \<Rightarrow> 'a option" where
  "arr_index xs i = (if 0 \<le> i \<and> nat i < length xs then Some (xs ! nat i) else None)"

text \<open>
  \<^verbatim>\<open>x || d\<close> for a string \<open>x\<close> that may be \<^verbatim>\<open>undefined\<close>: \<^verbatim>\<open>undefined\<close> and the empty
  string are falsy.
\<close>

definition str_or :: "string option \<Rightarrow> string \<Rightarrow> string" where
  "str_or x d = (case x of None \<Rightarrow> d | Some s \<Rightarrow> if s = [] then d else s)"

section \<open>SearchInput\<close>

text \<open>
  \<^verbatim>\<open>DiscoveryV1.QueryParams\<close>: the fields that the components read or write. The record
  is extensible, so every statement over \<open>'a QueryParams_scheme\<close> holds for parameters
  with any further fields, which live in the \<open>more\<close> part.
\<close>

record QueryParams =
  project_id :: string
  natural_language_query :: "string option"
  offset :: "int option"
  filter_q :: "string option"
  spelling_suggestions :: "bool option"

record QueryResponse =
  suggested_query :: "string option"

record Completions =
  completions_field :: "string list option"

record SearchInputProps =
  splitSearchQuerySelector :: "string option"

text \<open>
  The calls that leave the component: the two functions of \<^verbatim>\<open>SearchApi\<close> it uses for
  searching and completing, the focus and blur of the input element, and
  \<^verbatim>\<open>evt.preventDefault()\<close>.
\<close>

datatype 'p call =
    PerformSearch 'p
  | FetchAutocompletions string
  | Focus
  | Blur
  | PreventDefault

text \<open>
  The state the component works on: its own \<^verbatim>\<open>useState\<close> cells (\<open>input_value\<close> is the
  cell \<^verbatim>\<open>value\<close>), the shared context (\<open>searchParameters\<close>, \<open>searchResponse\<close>,
  \<open>autocompletionResults\<close>), whether \<^verbatim>\<open>document.getElementById\<close> finds the input
  element, and the log of the calls made so far.
\<close>

record 'a SearchInput_state =
  input_value :: string
  skipFetchAutoCompletions :: bool
  focused :: bool
  searchParameters :: "'a QueryParams_scheme"
  searchResponse :: "QueryResponse option"
  autocompletionResults :: "Completions option"
  input_field_present :: bool
  calls :: "'a QueryParams_scheme call list"

definition splitSelector :: "SearchInputProps \<Rightarrow> string" where
  "splitSelector props =
     (case splitSearchQuerySelector props of None \<Rightarrow> '' '' | Some sep \<Rightarrow> sep)"

text \<open>
  \<^verbatim>\<open>(autocompletionResults && autocompletionResults.completions) || []\<close>. The result
  is \<open>None\<close> when the expression is falsy and \<open>Some\<close> of the array otherwise, so that
  the test \<^verbatim>\<open>!!completions\<close> of \<^verbatim>\<open>selectAutocompletion\<close> is a branch of the model; an
  array, the empty one too, is truthy.
\<close>

definition completions :: "'a SearchInput_state \<Rightarrow> string list option" where
  "completions s =
     (case (case autocompletionResults s of None \<Rightarrow> None | Some r \<Rightarrow> completions_field r) of
        None \<Rightarrow> Some []
      | Some cs \<Rightarrow> Some cs)"

definition suggestedQuery :: "'a SearchInput_state \<Rightarrow> string option" where
  "suggestedQuery s =
     (case searchResponse s of None \<Rightarrow> None | Some r \<Rightarrow> suggested_query r)"

definition initialState ::
  "'a QueryParams_scheme \<Rightarrow> QueryResponse option \<Rightarrow> Completions option \<Rightarrow> bool
     \<Rightarrow> 'a SearchInput_state" where
  "initialState params resp compl present =
     \<lparr> input_value = str_or (natural_language_query params) '''',
       skipFetchAutoCompletions = False,
       focused = False,
       searchParameters = params,
       searchResponse = resp,
       autocompletionResults = compl,
       input_field_present = present,
       calls = [] \<rparr>"

definition SearchInput_handleOnChange ::
  "string option \<Rightarrow> 'a SearchInput_state \<Rightarrow> 'a SearchInput_state" where
  "SearchInput_handleOnChange target s =
     s\<lparr>input_value := (case target of None \<Rightarrow> '''' | Some v \<Rightarrow> v)\<rparr>"

definition selectAutocompletion ::
  "SearchInputProps \<Rightarrow> int \<Rightarrow> 'a SearchInput_state \<Rightarrow> 'a SearchInput_state" where
  "selectAutocompletion props i s =
     (let sep = splitSelector props;
          (prefix, valueArray) = arr_pop (str_split (input_value s) sep);
          completionValue =
            (case completions s of Some cs \<Rightarrow> arr_index cs i | None \<Rightarrow> prefix);
          valueArray' = valueArray @ [str_or completionValue ''''];
          s' = s\<lparr>input_value := arr_join valueArray' sep @ sep\<rparr>
      in if input_field_present s' then s'\<lparr>calls := calls s' @ [Focus]\<rparr> else s')"

definition prepareFreshSearchParameters ::
  "'a QueryParams_scheme \<Rightarrow> string \<Rightarrow> 'a QueryParams_scheme" where
  "prepareFreshSearchParameters params nlq =
     params\<lparr>natural_language_query := Some nlq, offset := Some 0, filter_q := Some ''''\<rparr>"

definition setupHandleAutocompletionKeyUp ::
  "SearchInputProps \<Rightarrow> int \<Rightarrow> string \<Rightarrow> 'a SearchInput_state \<Rightarrow> 'a SearchInput_state" where
  "setupHandleAutocompletionKeyUp props i key s =
     (if key = ''Enter'' then selectAutocompletion props i s else s)"

definition setupHandleAutocompletionOnClick ::
  "SearchInputProps \<Rightarrow> int \<Rightarrow> 'a SearchInput_state \<Rightarrow> 'a SearchInput_state" where
  "setupHandleAutocompletionOnClick props i s = selectAutocompletion props i s"

definition searchAndBlur :: "string \<Rightarrow> 'a SearchInput_state \<Rightarrow> 'a SearchInput_state" where
  "searchAndBlur v s =
     (let s' = s\<lparr>calls := calls s @
                   [PerformSearch (prepareFreshSearchParameters (searchParameters s) v)]\<rparr>
      in if input_field_present s' then s'\<lparr>calls := calls s' @ [Blur]\<rparr> else s')"

text \<open>
  The body of the effect that depends on \<^verbatim>\<open>debouncedSearchTerm\<close>. The hook
  \<^verbatim>\<open>useDebounce(value, 500)\<close> is not part of the component: the debounced text it
  delivers is the argument, and one application of \<open>debounceEffect\<close> is one run of the
  effect. \<^verbatim>\<open>setSearchParameters\<close> applies the updater to the shared parameters.
\<close>

definition debounceEffect :: "string \<Rightarrow> 'a SearchInput_state \<Rightarrow> 'a SearchInput_state" where
  "debounceEffect debouncedSearchTerm s =
     (let s' = s\<lparr>searchParameters :=
                   (searchParameters s)\<lparr>natural_language_query := Some debouncedSearchTerm\<rparr>\<rparr>
      in if \<not> skipFetchAutoCompletions s'
         then s'\<lparr>calls := calls s' @ [FetchAutocompletions debouncedSearchTerm]\<rparr>
         else s'\<lparr>skipFetchAutoCompletions := False\<rparr>)"

definition handleOnKeyUp :: "string \<Rightarrow> 'a SearchInput_state \<Rightarrow> 'a SearchInput_state" where
  "handleOnKeyUp key s = (if key = ''Enter'' then searchAndBlur (input_value s) s else s)"

definition selectSuggestion :: "'a SearchInput_state \<Rightarrow> 'a SearchInput_state" where
  "selectSuggestion s =
     (let s0 = s\<lparr>calls := calls s @ [PreventDefault]\<rparr>
      in case suggestedQuery s0 of
           None \<Rightarrow> s0
         | Some q \<Rightarrow>
             if q \<noteq> []
             then searchAndBlur q (s0\<lparr>skipFetchAutoCompletions := True, input_value := q\<rparr>)
             else s0)"

text \<open>
  Modelled from the spec: the hook \<^verbatim>\<open>useDebounce(value, 500)\<close> (the module
  \<^verbatim>\<open>utils/useDebounce\<close> is missing) and the runs of the effect that depends on its
  result. The state of the hook is the debounced text and the time in milliseconds
  left on its pending timeout (\<open>None\<close> when no timeout is pending); \<open>component\<close> is the
  state of the component itself.
\<close>

record 'a Debounced_state =
  component :: "'a SearchInput_state"
  debouncedSearchTerm :: string
  timer :: "nat option"




text \<open>
  Modelled from the spec: \<open>n\<close> milliseconds pass with no event, under \<^verbatim>\<open>useDebounce\<close>
  (the hook is missing). A timeout that has more than \<open>n\<close> milliseconds left keeps
  running. Otherwise it fires: the debounced text becomes the input text, and when
  that is a new debounced text the effect of the component runs with it.
\<close>

definition elapse :: "nat \<Rightarrow> 'a Debounced_state \<Rightarrow> 'a Debounced_state" where
  "elapse n d =
     (case timer d of
        None \<Rightarrow> d
      | Some r \<Rightarrow>
          if n < r then d\<lparr>timer := Some (r - n)\<rparr>
          else
            (let v = input_value (component d);
                 d' = d\<lparr>timer := None\<rparr>
             in if v = debouncedSearchTerm d then d'
                else d'\<lparr>debouncedSearchTerm := v,
                        component := debounceEffect v (component d)\<rparr>))"

section \<open>RuleGroupDropdown\<close>

text \<open>
  The texts of \<^verbatim>\<open>Messages\<close> that the dropdown uses, an item of the dropdown, the argument
  of its \<^verbatim>\<open>onChange\<close> callback, and \<^verbatim>\<open>StructuredQuerySelection\<close> with the one field the
  component writes; the other fields of the selection are the \<open>more\<close> part of the record.
\<close>

record Messages =
  ruleGroupDropdownAllOptionText :: string
  ruleGroupDropdownAnyOptionText :: string

record DropdownItem =
  label :: string
  item_value :: string

record RuleGroupDropdownSelectedItem =
  selectedItem :: DropdownItem

record StructuredQuerySelection =
  operator :: string

definition ruleGroupDropdownItems :: "'m Messages_scheme \<Rightarrow> DropdownItem list" where
  "ruleGroupDropdownItems messages =
     [ \<lparr>label = ruleGroupDropdownAllOptionText messages, item_value = '',''\<rparr>,
       \<lparr>label = ruleGroupDropdownAnyOptionText messages, item_value = ''|''\<rparr> ]"

definition RuleGroupDropdown_handleOnChange ::
  "'a StructuredQuerySelection_scheme \<Rightarrow> RuleGroupDropdownSelectedItem
     \<Rightarrow> 'a StructuredQuerySelection_scheme" where
  "RuleGroupDropdown_handleOnChange structuredQuerySelection ruleGroupDropdownSelection =
     structuredQuerySelection
       \<lparr>operator := item_value (selectedItem ruleGroupDropdownSelection)\<rparr>"

section \<open>SearchRefinements\<close>

text \<open>
  The component \<^verbatim>\<open>SearchRefinements\<close> is known here through its test file only. The
  definitions of this section follow the specification's description of the filter
  string and the cases of that test file: the configured fields \<^verbatim>\<open>author\<close> and
  \<^verbatim>\<open>subject\<close>, the filter of the search parameters the component starts from, and the
  filter of the one search each click performs.
\<close>













section \<open>Properties of SearchInput\<close>

lemma selectAutocompletion_input_value:
  "completions s = Some cs \<Longrightarrow>
   input_value (selectAutocompletion props i s) =
     arr_join (butlast (str_split (input_value s) (splitSelector props)) @
               [str_or (arr_index cs i) []])
       (splitSelector props) @ splitSelector props"
  by (simp add: selectAutocompletion_def Let_def arr_pop_def split: prod.splits)

lemma completions_defined:
  "completions s =
     Some (case autocompletionResults s of
             None \<Rightarrow> []
           | Some r \<Rightarrow> (case completions_field r of None \<Rightarrow> [] | Some cs \<Rightarrow> cs))"
  by (simp add: completions_def split: option.splits)

text \<open>
  C2, as the claim states it: \<^verbatim>\<open>selectAutocompletion(i)\<close> turns the text into the text
  whose last token is replaced by \<^verbatim>\<open>completions[i]\<close>. It fails on the text \<^verbatim>\<open>he\<close> with
  the one completion \<^verbatim>\<open>hello\<close> and the default separator: the text with its last token
  replaced is \<^verbatim>\<open>hello\<close>, and the component sets \<^verbatim>\<open>hello\<close> followed by a space.
\<close>

theorem selectAutocompletion_replace_only_counterexample:
  "input_value
     (selectAutocompletion \<lparr>splitSearchQuerySelector = None\<rparr> 0
        (initialState
           \<lparr>project_id = '''', natural_language_query = Some ''he'', offset = None,
            filter_q = None, spelling_suggestions = None\<rparr>
           None (Some \<lparr>completions_field = Some [''hello'']\<rparr>) True)) = ''hello ''
   \<and> arr_join (butlast (str_split ''he'' '' '') @ [''hello'']) '' '' = ''hello''"
  by (simp add: selectAutocompletion_def initialState_def splitSelector_def completions_def
      arr_pop_def arr_index_def str_or_def str_split_def Let_def)

text \<open>
  C2, amended: for every text and every index \<open>i\<close> of the completions list,
  \<^verbatim>\<open>selectAutocompletion(i)\<close> sets the text to the tokens of the old text (split at
  \<^verbatim>\<open>splitSearchQuerySelector\<close>, a space by default) with the last token replaced by
  \<^verbatim>\<open>completions[i]\<close>, joined by the separator and followed by one more separator.
\<close>

theorem selectAutocompletion_splices_completion:
  assumes "completions s = Some cs" and "0 \<le> i" and "nat i < length cs"
  shows "input_value (selectAutocompletion props i s) =
           arr_join (butlast (str_split (input_value s) (splitSelector props)) @ [cs ! nat i])
             (splitSelector props) @ splitSelector props
         \<and> splitSelector \<lparr>splitSearchQuerySelector = None\<rparr> = '' ''"
  using assms
  by (simp add: selectAutocompletion_input_value arr_index_def str_or_def splitSelector_def)

theorem selectAutocompletion_splices_completion_witness:
  "input_value
     (selectAutocompletion \<lparr>splitSearchQuerySelector = None\<rparr> 1
        (initialState
           \<lparr>project_id = '''', natural_language_query = Some ''red ap'', offset = None,
            filter_q = None, spelling_suggestions = None\<rparr>
           None (Some \<lparr>completions_field = Some [''apex'', ''apple'']\<rparr>) False)) =
     ''red apple ''"
proof -
  let ?s = "initialState
           \<lparr>project_id = '''', natural_language_query = Some ''red ap'', offset = None,
            filter_q = None, spelling_suggestions = None\<rparr>
           None (Some \<lparr>completions_field = Some [''apex'', ''apple'']\<rparr>) False"
  have c: "completions ?s = Some [''apex'', ''apple'']"
    by (simp add: completions_def initialState_def)
  have i: "(0::int) \<le> 1" and n: "nat 1 < length [''apex'', ''apple'']" by simp_all
  show ?thesis
    using selectAutocompletion_splices_completion
      [OF c i n, of "\<lparr>splitSearchQuerySelector = None\<rparr>"]
    by (simp add: initialState_def splitSelector_def str_or_def str_split_def)
qed

text \<open>
  Time passing in two steps with no event between them is time passing in one step, so
  the statements below speak of one step.
\<close>

lemma elapse_add: "elapse m (elapse n d) = elapse (n + m) d"
proof (cases "timer d")
  case None
  then show ?thesis by (simp add: elapse_def)
next
  case (Some r)
  show ?thesis
  proof (cases "n < r")
    case True
    with Some show ?thesis
      by (auto simp: elapse_def Let_def)
  next
    case False
    with Some show ?thesis
      by (simp add: elapse_def Let_def)
  qed
qed




text \<open>
  C6: pressing Enter in the search input makes one call of \<^verbatim>\<open>performSearch\<close> (followed by
  the blur of the input element when it is found), and the parameters of that call have
  the current input text as \<^verbatim>\<open>natural_language_query\<close>.
\<close>

theorem enter_performs_search:
  "calls (handleOnKeyUp ''Enter'' s) =
     calls s @ [PerformSearch (prepareFreshSearchParameters (searchParameters s) (input_value s))]
       @ (if input_field_present s then [Blur] else [])
   \<and> natural_language_query
        (prepareFreshSearchParameters (searchParameters s) (input_value s)) =
       Some (input_value s)"
  by (simp add: handleOnKeyUp_def searchAndBlur_def prepareFreshSearchParameters_def Let_def)

theorem enter_performs_search_witness:
  "calls
     (handleOnKeyUp ''Enter''
        (SearchInput_handleOnChange (Some ''tigers'')
           (initialState
              \<lparr>project_id = ''p1'', natural_language_query = None, offset = Some 20,
               filter_q = Some ''subject:Animals'', spelling_suggestions = None\<rparr>
              None None True))) =
     [PerformSearch
        \<lparr>project_id = ''p1'', natural_language_query = Some ''tigers'', offset = Some 0,
         filter_q = Some '''', spelling_suggestions = None\<rparr>,
      Blur]"
  using enter_performs_search
    [of "SearchInput_handleOnChange (Some ''tigers'')
           (initialState
              \<lparr>project_id = ''p1'', natural_language_query = None, offset = Some 20,
               filter_q = Some ''subject:Animals'', spelling_suggestions = None\<rparr>
              None None True)"]
  by (simp add: SearchInput_handleOnChange_def initialState_def
      prepareFreshSearchParameters_def)

text \<open>
  C7: a run of the debounce effect leaves the shared search parameters with
  \<^verbatim>\<open>natural_language_query\<close> equal to the debounced text and with every other field,
  the ones the record does not name too, as it was.
\<close>

theorem debounce_updates_only_query:
  "natural_language_query (searchParameters (debounceEffect t s)) = Some t
   \<and> project_id (searchParameters (debounceEffect t s)) = project_id (searchParameters s)
   \<and> offset (searchParameters (debounceEffect t s)) = offset (searchParameters s)
   \<and> filter_q (searchParameters (debounceEffect t s)) = filter_q (searchParameters s)
   \<and> spelling_suggestions (searchParameters (debounceEffect t s)) =
       spelling_suggestions (searchParameters s)
   \<and> QueryParams.more (searchParameters (debounceEffect t s)) =
       QueryParams.more (searchParameters s)"
  by (simp add: debounceEffect_def Let_def)

theorem debounce_updates_only_query_witness:
  "searchParameters
     (debounceEffect ''lion''
        (initialState
           \<lparr>project_id = ''p1'', natural_language_query = Some ''li'', offset = Some 10,
            filter_q = Some ''subject:Animals'', spelling_suggestions = Some True\<rparr>
           None None True)) =
     \<lparr>project_id = ''p1'', natural_language_query = Some ''lion'', offset = Some 10,
      filter_q = Some ''subject:Animals'', spelling_suggestions = Some True\<rparr>"
  using debounce_updates_only_query
    [of "''lion''" "initialState
           \<lparr>project_id = ''p1'', natural_language_query = Some ''li'', offset = Some 10,
            filter_q = Some ''subject:Animals'', spelling_suggestions = Some True\<rparr>
           None None True"]
  by (simp add: initialState_def debounceEffect_def)

text \<open>
  C8, as the claim states it: the parameters of a search submitted from the search box
  are the current search parameters with \<^verbatim>\<open>offset\<close> and \<^verbatim>\<open>filter\<close> reset and every other
  field preserved. It fails for \<^verbatim>\<open>natural_language_query\<close>: with the shared parameters
  still holding \<^verbatim>\<open>old\<close> and the input text changed to \<^verbatim>\<open>new\<close>, Enter submits \<^verbatim>\<open>new\<close>.
\<close>

theorem fresh_parameters_keep_query_counterexample:
  "calls
     (handleOnKeyUp ''Enter''
        (SearchInput_handleOnChange (Some ''new'')
           (initialState
              \<lparr>project_id = '''', natural_language_query = Some ''old'', offset = None,
               filter_q = None, spelling_suggestions = None\<rparr> None None False))) =
     [PerformSearch
        \<lparr>project_id = '''', natural_language_query = Some ''new'', offset = Some 0,
         filter_q = Some '''', spelling_suggestions = None\<rparr>]
   \<and> natural_language_query
        (searchParameters
           (SearchInput_handleOnChange (Some ''new'')
              (initialState
                 \<lparr>project_id = '''', natural_language_query = Some ''old'', offset = None,
                  filter_q = None, spelling_suggestions = None\<rparr> None None False))) =
       Some ''old''"
  by (simp add: handleOnKeyUp_def searchAndBlur_def prepareFreshSearchParameters_def
      SearchInput_handleOnChange_def initialState_def str_or_def Let_def)

text \<open>
  C8, amended: every search submitted from the search box (Enter key or click on the
  spelling suggestion) is a call of \<^verbatim>\<open>performSearch\<close> on the result of
  \<^verbatim>\<open>prepareFreshSearchParameters\<close>, which sets \<^verbatim>\<open>offset\<close> to 0, \<^verbatim>\<open>filter\<close> to the empty
  string and \<^verbatim>\<open>natural_language_query\<close> to the submitted text, and preserves every other
  field of the current search parameters.
\<close>

theorem searches_use_fresh_parameters:
  "calls (handleOnKeyUp ''Enter'' s) =
     calls s @ [PerformSearch (prepareFreshSearchParameters (searchParameters s) (input_value s))]
       @ (if input_field_present s then [Blur] else [])
   \<and> (suggestedQuery s = Some q \<and> q \<noteq> [] \<longrightarrow>
        calls (selectSuggestion s) =
          calls s @ [PreventDefault,
                     PerformSearch (prepareFreshSearchParameters (searchParameters s) q)]
            @ (if input_field_present s then [Blur] else []))
   \<and> offset (prepareFreshSearchParameters p nlq) = Some 0
   \<and> filter_q (prepareFreshSearchParameters p nlq) = Some ''''
   \<and> natural_language_query (prepareFreshSearchParameters p nlq) = Some nlq
   \<and> project_id (prepareFreshSearchParameters p nlq) = project_id p
   \<and> spelling_suggestions (prepareFreshSearchParameters p nlq) = spelling_suggestions p
   \<and> QueryParams.more (prepareFreshSearchParameters p nlq) = QueryParams.more p"
  by (simp add: handleOnKeyUp_def selectSuggestion_def suggestedQuery_def searchAndBlur_def
      prepareFreshSearchParameters_def Let_def)

theorem searches_use_fresh_parameters_witness:
  "calls
     (selectSuggestion
        (initialState
           \<lparr>project_id = ''p1'', natural_language_query = Some ''zebar'', offset = Some 30,
            filter_q = Some ''subject:Animals'', spelling_suggestions = Some True\<rparr>
           (Some \<lparr>suggested_query = Some ''zebra''\<rparr>) None False)) =
     [PreventDefault,
      PerformSearch
        \<lparr>project_id = ''p1'', natural_language_query = Some ''zebra'', offset = Some 0,
         filter_q = Some '''', spelling_suggestions = Some True\<rparr>]"
  using searches_use_fresh_parameters
    [of "initialState
           \<lparr>project_id = ''p1'', natural_language_query = Some ''zebar'', offset = Some 30,
            filter_q = Some ''subject:Animals'', spelling_suggestions = Some True\<rparr>
           (Some \<lparr>suggested_query = Some ''zebra''\<rparr>) None False" "''zebra''"]
  by (simp add: initialState_def suggestedQuery_def prepareFreshSearchParameters_def)

text \<open>
  C9, as the claim states it: for an index out of the range of the completions list,
  the text becomes the text whose last token is replaced by the empty string. It fails
  on the text \<^verbatim>\<open>foo ba\<close> with no completions: the text with its last token emptied is
  \<^verbatim>\<open>foo\<close> and one space, and the component sets \<^verbatim>\<open>foo\<close> and two spaces.
\<close>

theorem selectAutocompletion_out_of_range_counterexample:
  "input_value
     (selectAutocompletion \<lparr>splitSearchQuerySelector = None\<rparr> 0
        (initialState
           \<lparr>project_id = '''', natural_language_query = Some ''foo ba'', offset = None,
            filter_q = None, spelling_suggestions = None\<rparr> None None True)) = ''foo  ''
   \<and> arr_join (butlast (str_split ''foo ba'' '' '') @ ['''']) '' '' = ''foo ''"
  by (simp add: selectAutocompletion_def initialState_def splitSelector_def completions_def
      arr_pop_def arr_index_def str_or_def str_split_def Let_def)

text \<open>
  C9, amended: \<^verbatim>\<open>selectAutocompletion\<close> is total in the index. The completions list is
  always an array, so the branch that would put the typed prefix back is never taken;
  and for every text and every index out of the range of that array (every index, when
  the array is empty) the text is set to the tokens of the old text with the last token
  replaced by the empty string, joined by the separator and followed by one more
  separator.
\<close>

theorem selectAutocompletion_out_of_range:
  "\<exists>cs. completions s = Some cs
     \<and> (i < 0 \<or> int (length cs) \<le> i \<longrightarrow>
          input_value (selectAutocompletion props i s) =
            arr_join (butlast (str_split (input_value s) (splitSelector props)) @ [''''])
              (splitSelector props) @ splitSelector props)"
proof -
  obtain cs where cs: "completions s = Some cs"
    by (simp add: completions_defined)
  have "input_value (selectAutocompletion props i s) =
          arr_join (butlast (str_split (input_value s) (splitSelector props)) @ [''''])
            (splitSelector props) @ splitSelector props"
    if "i < 0 \<or> int (length cs) \<le> i"
  proof -
    from that have "arr_index cs i = None"
      by (auto simp: arr_index_def)
    then show ?thesis
      by (simp add: selectAutocompletion_input_value [OF cs] str_or_def)
  qed
  with cs show ?thesis by blast
qed

theorem selectAutocompletion_out_of_range_witness:
  "input_value
     (selectAutocompletion \<lparr>splitSearchQuerySelector = Some '', ''\<rparr> 2
        (initialState
           \<lparr>project_id = '''', natural_language_query = Some ''a, b'', offset = None,
            filter_q = None, spelling_suggestions = None\<rparr>
           None (Some \<lparr>completions_field = Some [''bee'', ''bat'']\<rparr>) True)) = ''a, , ''"
  using selectAutocompletion_out_of_range
    [of "initialState
           \<lparr>project_id = '''', natural_language_query = Some ''a, b'', offset = None,
            filter_q = None, spelling_suggestions = None\<rparr>
           None (Some \<lparr>completions_field = Some [''bee'', ''bat'']\<rparr>) True"
        2 "\<lparr>splitSearchQuerySelector = Some '', ''\<rparr>"]
  by (simp add: completions_def initialState_def splitSelector_def str_or_def str_split_def)

text \<open>
  C10: a click on the spelling-suggestion button (shown for a non-empty suggested query)
  sets the input text to the suggested query, performs one search with that query, and
  sets \<^verbatim>\<open>skipFetchAutoCompletions\<close>; the next run of the debounce effect fetches nothing
  and clears the flag, and the run after it fetches again.
\<close>

theorem suggestion_click_skips_one_fetch:
  assumes "suggestedQuery s = Some q" and "q \<noteq> []"
  shows "input_value (selectSuggestion s) = q
   \<and> skipFetchAutoCompletions (selectSuggestion s)
   \<and> calls (selectSuggestion s) =
       calls s @ [PreventDefault,
                  PerformSearch (prepareFreshSearchParameters (searchParameters s) q)]
         @ (if input_field_present s then [Blur] else [])
   \<and> natural_language_query (prepareFreshSearchParameters (searchParameters s) q) = Some q
   \<and> calls (debounceEffect t (selectSuggestion s)) = calls (selectSuggestion s)
   \<and> \<not> skipFetchAutoCompletions (debounceEffect t (selectSuggestion s))
   \<and> calls (debounceEffect t' (debounceEffect t (selectSuggestion s))) =
       calls (selectSuggestion s) @ [FetchAutocompletions t']"
  using assms
  by (simp add: selectSuggestion_def suggestedQuery_def searchAndBlur_def debounceEffect_def
      prepareFreshSearchParameters_def Let_def)

theorem suggestion_click_skips_one_fetch_witness:
  "calls
     (debounceEffect ''cats''
        (debounceEffect ''cat''
           (selectSuggestion
              (initialState
                 \<lparr>project_id = '''', natural_language_query = Some ''cta'', offset = None,
                  filter_q = None, spelling_suggestions = Some True\<rparr>
                 (Some \<lparr>suggested_query = Some ''cat''\<rparr>) None False)))) =
     [PreventDefault,
      PerformSearch
        \<lparr>project_id = '''', natural_language_query = Some ''cat'', offset = Some 0,
         filter_q = Some '''', spelling_suggestions = Some True\<rparr>,
      FetchAutocompletions ''cats'']"
proof -
  let ?s = "initialState
                 \<lparr>project_id = '''', natural_language_query = Some ''cta'', offset = None,
                  filter_q = None, spelling_suggestions = Some True\<rparr>
                 (Some \<lparr>suggested_query = Some ''cat''\<rparr>) None False"
  have q: "suggestedQuery ?s = Some ''cat''"
    by (simp add: suggestedQuery_def initialState_def)
  have n: "''cat'' \<noteq> []" by simp
  show ?thesis
    using suggestion_click_skips_one_fetch [OF q n, of "''cat''" "''cats''"]
    by (simp add: initialState_def prepareFreshSearchParameters_def)
qed

section \<open>Properties of RuleGroupDropdown\<close>

text \<open>
  C4: the dropdown has two items; the one labelled with the All text carries \<^verbatim>\<open>,\<close> and
  the one labelled with the Any text carries \<^verbatim>\<open>|\<close>; \<^verbatim>\<open>handleOnChange\<close> with the All item
  selected sets the operator of the selection to \<^verbatim>\<open>,\<close>, with the Any item selected to
  \<^verbatim>\<open>|\<close>, and changes no other field of the selection.
\<close>

theorem rule_group_operator:
  "length (ruleGroupDropdownItems m) = 2
   \<and> label (ruleGroupDropdownItems m ! 0) = ruleGroupDropdownAllOptionText m
   \<and> operator (RuleGroupDropdown_handleOnChange sel
        \<lparr>selectedItem = ruleGroupDropdownItems m ! 0\<rparr>) = '',''
   \<and> label (ruleGroupDropdownItems m ! 1) = ruleGroupDropdownAnyOptionText m
   \<and> operator (RuleGroupDropdown_handleOnChange sel
        \<lparr>selectedItem = ruleGroupDropdownItems m ! 1\<rparr>) = ''|''
   \<and> StructuredQuerySelection.more (RuleGroupDropdown_handleOnChange sel x) =
       StructuredQuerySelection.more sel"
  by (simp add: ruleGroupDropdownItems_def RuleGroupDropdown_handleOnChange_def)

theorem rule_group_operator_witness:
  "RuleGroupDropdown_handleOnChange \<lparr>operator = '',''\<rparr>
     \<lparr>selectedItem =
        ruleGroupDropdownItems
          \<lparr>ruleGroupDropdownAllOptionText = ''All'',
           ruleGroupDropdownAnyOptionText = ''Any''\<rparr> ! 1\<rparr> =
     \<lparr>operator = ''|''\<rparr>"
  using rule_group_operator
    [of "\<lparr>ruleGroupDropdownAllOptionText = ''All'', ruleGroupDropdownAnyOptionText = ''Any''\<rparr>"
        "\<lparr>operator = '',''\<rparr>"]
  by (simp add: RuleGroupDropdown_handleOnChange_def)

section \<open>Properties of the filter string of SearchRefinements\<close>





























end
